theory Spec2Isabelle
  imports Main "HOL-Library.Word"
begin

section \<open>The raw connection provider (package packetgen)\<close>

record ConnectionConfig =
  Name :: string
  Address :: string

text \<open>
  \<^verbatim>\<open>net.ListenPacket\<close> and \<^verbatim>\<open>ipv6.NewPacketConn\<close> belong to Go's libraries and
  are parameters: the first opens the socket or fails with an error, the second wraps an
  open socket and cannot fail. The result is the pair of the connection and the error,
  \<open>None\<close> for \<^verbatim>\<open>nil\<close>.
\<close>

definition OpenRawConnection ::
  "(string \<Rightarrow> string \<Rightarrow> 'e + 'c) \<Rightarrow> ('c \<Rightarrow> 'p) \<Rightarrow> ConnectionConfig \<Rightarrow> 'p option \<times> 'e option" where
  "OpenRawConnection ListenPacket NewPacketConn c =
    (case ListenPacket (Name c) (Address c) of
       Inl err \<Rightarrow> (None, Some err)
     | Inr packetConn \<Rightarrow> (Some (NewPacketConn packetConn), None))"

text \<open>
  Go's error values, as far as wrapping goes: an error made of a message alone
  (\<^verbatim>\<open>errors.New\<close>, a system call's error number), or an error that wraps a cause
  under a message of its own (\<^verbatim>\<open>fmt.Errorf\<close> with \<^verbatim>\<open>%w\<close>, an error type with an
  \<^verbatim>\<open>Unwrap\<close> method). \<^verbatim>\<open>errors.Unwrap\<close> gives the cause, or \<^verbatim>\<open>nil\<close>.
\<close>

datatype go_error =
    New string
  | Wrapping string go_error

fun errors_Unwrap :: "go_error \<Rightarrow> go_error option" where
  "errors_Unwrap (New message) = None"
| "errors_Unwrap (Wrapping message cause) = Some cause"

section \<open>Restart on platforms without support (package ota)\<close>

text \<open>
  The build tags \<^verbatim>\<open>linux\<close>, \<^verbatim>\<open>darwin\<close> and \<^verbatim>\<open>windows\<close> of the file's
  constraint are names of operating systems. Go's build rules satisfy such a tag when it
  is the target operating system \<^verbatim>\<open>GOOS\<close>; besides, a build for android satisfies
  the tags of linux, one for illumos those of solaris, and one for ios those of darwin;
  and a tag is satisfied when the build names it in addition (the \<^verbatim>\<open>-tags\<close> flag).
  The other tags a build satisfies (the architecture, the compiler, \<^verbatim>\<open>cgo\<close>,
  \<^verbatim>\<open>unix\<close>, the release tags) are never the name of an operating system.
\<close>

definition satisfied :: "string \<Rightarrow> string list \<Rightarrow> string \<Rightarrow> bool" where
  "satisfied GOOS tags tag =
    (tag = GOOS
     \<or> (GOOS = ''android'' \<and> tag = ''linux'')
     \<or> (GOOS = ''illumos'' \<and> tag = ''solaris'')
     \<or> (GOOS = ''ios'' \<and> tag = ''darwin'')
     \<or> tag \<in> set tags)"

text \<open>
  The build constraint of the file, \<^verbatim>\<open>!linux && !darwin && !windows\<close> (lines 1-2),
  for a build with target \<open>GOOS\<close> and the additional tags \<open>tags\<close>.
\<close>

definition build_constraint :: "string \<Rightarrow> string list \<Rightarrow> bool" where
  "build_constraint GOOS tags =
    (\<not> satisfied GOOS tags ''linux'' \<and> \<not> satisfied GOOS tags ''darwin''
     \<and> \<not> satisfied GOOS tags ''windows'')"

text \<open>
  The file gives a build its \<^verbatim>\<open>Restart\<close> only when the constraint holds; in any
  other build the file is left out and \<^verbatim>\<open>Restart\<close> is declared by another file of
  the package, outside the sources at hand: the model's result is then \<open>None\<close>. Where
  the file is built, \<^verbatim>\<open>runtime.GOOS\<close> is the build's target. The state of the process
  \<open>s\<close> is threaded explicitly, so that what the function leaves untouched can be
  stated; the error is its message, \<open>None\<close> for \<^verbatim>\<open>nil\<close>.
\<close>

definition Restart ::
  "string \<Rightarrow> string list \<Rightarrow> string list \<Rightarrow> 's \<Rightarrow> (string option \<times> 's) option" where
  "Restart GOOS tags extraArgs s =
    (if build_constraint GOOS tags
     then Some (Some (''restart on the '' @ GOOS @ '' system is not available''), s)
     else None)"

section \<open>The DNS blast job adapter (src/jobs/dnsblast.go)\<close>

text \<open>
  The adapter \<^verbatim>\<open>dnsBlastJob\<close> decodes the generic job arguments, validates and
  defaults the typed configuration, and hands an engine configuration to
  \<^verbatim>\<open>dnsblast.Start\<close>. The decoder (\<^verbatim>\<open>utils.Decode\<close>) and the engine
  (\<^verbatim>\<open>dnsblast.Start\<close>) live in other packages; they are parameters of the model.
  The context, the logger and the wait group only reach the engine, so the parameter
  \<open>Start\<close> stands for the call with those three already supplied. A panic raised
  inside the engine is handled by the deferred \<^verbatim>\<open>utils.PanicHandler\<close> and is not
  part of this model: the model covers the paths on which the function returns.
\<close>

subsection \<open>Values of the Go standard library\<close>

text \<open>
  \<^verbatim>\<open>time.Duration\<close> is an \<^verbatim>\<open>int64\<close> count of nanoseconds; its arithmetic
  wraps. The conversion \<^verbatim>\<open>time.Duration(n)\<close> of an \<^verbatim>\<open>int\<close> keeps the value
  (\<open>word_of_int\<close>).
\<close>

type_synonym Duration = "64 word"

definition Millisecond :: Duration where
  "Millisecond = 1000000"

subsection \<open>The engine's interface (package dnsblast)\<close>

text \<open>
  Modelled from the spec: the three protocol names of package \<^verbatim>\<open>dnsblast\<close>, whose
  declarations are in a file outside the sources at hand. The spec's configuration keys
  and the comment on the \<^verbatim>\<open>Protocol\<close> field of \<^verbatim>\<open>dnsBlastConfig\<close> both give
  them as "udp", "tcp" and "tcp-tls".
\<close>

definition UDPProtoName :: string where
  "UDPProtoName = ''udp''"

definition TCPProtoName :: string where
  "TCPProtoName = ''tcp''"

definition TCPTLSProtoName :: string where
  "TCPTLSProtoName = ''tcp-tls''"

text \<open>
  \<^verbatim>\<open>dnsblast.Config\<close>, with the fields the adapter fills in. Go's \<^verbatim>\<open>int\<close> is
  read as its integer value: the adapter only compares it with zero and copies it.
\<close>

record Config =
  RootDomain :: string
  Protocol :: string
  SeedDomains :: "string list"
  ParallelQueries :: int
  Delay :: Duration
  ClientID :: string

subsection \<open>The job's configuration\<close>

definition defaultProto :: string where
  "defaultProto = UDPProtoName"

definition defaultParallelQueriesPerCycle :: int where
  "defaultParallelQueriesPerCycle = 5"

definition defaultIntervalInMS :: int where
  "defaultIntervalInMS = 10"

text \<open>
  Modelled from the spec: \<^verbatim>\<open>BasicJobConfig\<close>, the shared fields every job
  configuration embeds, is declared outside the sources at hand. The adapter uses its
  integer field \<^verbatim>\<open>IntervalMs\<close>, the inter-cycle interval in milliseconds.
\<close>

record BasicJobConfig =
  IntervalMs :: int

record dnsBlastConfig = BasicJobConfig +
  RootDomain :: string
  Protocol :: string
  SeedDomains :: "string list"
  ParallelQueries :: int

text \<open>\<^verbatim>\<open>GlobalConfig\<close>: the adapter reads its client identifier only.\<close>

record GlobalConfig =
  ClientID :: string

subsection \<open>Errors and the outcome of a run\<close>

text \<open>
  The errors \<^verbatim>\<open>dnsBlastJob\<close> can return. \<open>FailedToParse\<close> is the
  \<^verbatim>\<open>fmt.Errorf("... %w", err)\<close> of line 59, which wraps the decoder's error;
  \<open>EngineError\<close> carries the error of \<^verbatim>\<open>dnsblast.Start\<close>, which the adapter
  returns as it is. \<open>UnrecognizedProtocol\<close> carries the list of names the message
  of line 86 prints.
\<close>

datatype ('d, 'e) job_error =
    FailedToParse 'd
  | NoRootDomain
  | NoSeedDomains
  | UnrecognizedProtocol "string list"
  | EngineError 'e

text \<open>
  \<^verbatim>\<open>errors.Unwrap\<close> on those errors. The \<^verbatim>\<open>%w\<close> error has the decoder's error
  as its cause; the errors made by \<^verbatim>\<open>errors.New\<close> and by \<^verbatim>\<open>fmt.Errorf\<close> without
  \<^verbatim>\<open>%w\<close> have none; the engine's error is returned as it is, so its cause is what
  \<^verbatim>\<open>errors.Unwrap\<close> gives on the engine's own error, the parameter
  \<open>UnwrapEngine\<close>.
\<close>

fun Unwrap :: "('e \<Rightarrow> 'e option) \<Rightarrow> ('d, 'e) job_error \<Rightarrow> ('d + 'e) option" where
  "Unwrap UnwrapEngine (FailedToParse cause) = Some (Inl cause)"
| "Unwrap UnwrapEngine NoRootDomain = None"
| "Unwrap UnwrapEngine NoSeedDomains = None"
| "Unwrap UnwrapEngine (UnrecognizedProtocol names) = None"
| "Unwrap UnwrapEngine (EngineError e) = map_option Inr (UnwrapEngine e)"

text \<open>
  What a run of the adapter yields: the two named results \<^verbatim>\<open>data\<close> and
  \<^verbatim>\<open>err\<close> (\<open>None\<close> is \<^verbatim>\<open>nil\<close>), and the one effect it has, the call of
  the engine: \<open>started\<close> is the configuration \<^verbatim>\<open>dnsblast.Start\<close> was called
  with, or \<open>None\<close> when the engine was never called.
\<close>

record ('d, 'e) job_run =
  data :: "unit option"
  err :: "('d, 'e) job_error option"
  started :: "Config option"

subsection \<open>The adapter\<close>

text \<open>
  The function, line by line: the decode (57-60), the two checks (67-74), the protocol
  switch (77-88), whose first matching case is taken and whose second case returns, the
  two defaults (91-98), and the call of the engine (105-116). The switch is the value
  \<open>settled\<close>: the error it returns with, or the configuration it goes on with.
\<close>

definition dnsBlastJob ::
  "('a \<Rightarrow> 'd + dnsBlastConfig) \<Rightarrow> (Config \<Rightarrow> 'e option) \<Rightarrow> GlobalConfig \<Rightarrow> 'a
     \<Rightarrow> ('d, 'e) job_run" where
  "dnsBlastJob Decode Start globalConfig args =
    (case Decode args of
       Inl cause \<Rightarrow> \<lparr>data = None, err = Some (FailedToParse cause), started = None\<rparr>
     | Inr jobConfig \<Rightarrow>
        if length (dnsBlastConfig.RootDomain jobConfig) = 0 then
          \<lparr>data = None, err = Some NoRootDomain, started = None\<rparr>
        else if length (dnsBlastConfig.SeedDomains jobConfig) = 0 then
          \<lparr>data = None, err = Some NoSeedDomains, started = None\<rparr>
        else
          let isUDPProto = (dnsBlastConfig.Protocol jobConfig = UDPProtoName);
              isTCPProto = (dnsBlastConfig.Protocol jobConfig = TCPProtoName);
              isTCPTLSProto = (dnsBlastConfig.Protocol jobConfig = TCPTLSProtoName);
              settled =
                (if dnsBlastConfig.Protocol jobConfig = '''' then
                   Inr (jobConfig\<lparr>dnsBlastConfig.Protocol := defaultProto\<rparr>)
                 else if \<not> (isUDPProto \<or> \<not> isTCPProto \<or> \<not> isTCPTLSProto) then
                   Inl (UnrecognizedProtocol [UDPProtoName, TCPProtoName, TCPTLSProtoName])
                 else Inr jobConfig)
          in
          (case settled of
            Inl unrecognized \<Rightarrow> \<lparr>data = None, err = Some unrecognized, started = None\<rparr>
          | Inr jobConfig1 \<Rightarrow>
              let jobConfig2 =
                    (if dnsBlastConfig.ParallelQueries jobConfig1 = 0
                     then jobConfig1\<lparr>dnsBlastConfig.ParallelQueries :=
                                          defaultParallelQueriesPerCycle\<rparr>
                     else jobConfig1);
                  jobConfig3 =
                    (if IntervalMs jobConfig2 = 0
                     then jobConfig2\<lparr>IntervalMs := defaultIntervalInMS\<rparr>
                     else jobConfig2);
                  config =
                    \<lparr>Config.RootDomain = dnsBlastConfig.RootDomain jobConfig3,
                     Config.Protocol = dnsBlastConfig.Protocol jobConfig3,
                     Config.SeedDomains = dnsBlastConfig.SeedDomains jobConfig3,
                     Config.ParallelQueries = dnsBlastConfig.ParallelQueries jobConfig3,
                     Delay = word_of_int (IntervalMs jobConfig3) * Millisecond,
                     Config.ClientID = GlobalConfig.ClientID globalConfig\<rparr>
              in \<lparr>data = None, err = map_option EngineError (Start config),
                  started = Some config\<rparr>))"

section \<open>Properties of the job adapter\<close>

subsection \<open>Shared lemmas\<close>

lemmas dnsBlastJob_unfold =
  dnsBlastJob_def Let_def UDPProtoName_def TCPProtoName_def TCPTLSProtoName_def
  defaultProto_def defaultParallelQueriesPerCycle_def defaultIntervalInMS_def Millisecond_def

lemma dnsBlastJob_decode_failed:
  assumes "Decode args = Inl cause"
  shows "dnsBlastJob Decode Start globalConfig args =
           \<lparr>data = None, err = Some (FailedToParse cause), started = None\<rparr>"
  using assms by (simp add: dnsBlastJob_def)

text \<open>
  The rejecting branch of the protocol switch needs the protocol to equal both
  \<^verbatim>\<open>TCPProtoName\<close> and \<^verbatim>\<open>TCPTLSProtoName\<close>, so no run takes it.
\<close>

lemma dnsBlastJob_never_rejects_protocol:
  "err (dnsBlastJob Decode Start globalConfig args) \<noteq> Some (UnrecognizedProtocol names)"
  by (auto simp add: dnsBlastJob_unfold split: sum.splits)

text \<open>
  A decoded configuration with a root domain and a seed list always reaches the engine;
  this is the configuration the engine is called with, and the error is the engine's.
\<close>

lemma dnsBlastJob_calls_engine:
  assumes "Decode args = Inr c"
    and "dnsBlastConfig.RootDomain c \<noteq> []"
    and "dnsBlastConfig.SeedDomains c \<noteq> []"
  shows "dnsBlastJob Decode Start globalConfig args =
    (let config =
       \<lparr>Config.RootDomain = dnsBlastConfig.RootDomain c,
        Config.Protocol =
          (if dnsBlastConfig.Protocol c = [] then ''udp'' else dnsBlastConfig.Protocol c),
        Config.SeedDomains = dnsBlastConfig.SeedDomains c,
        Config.ParallelQueries =
          (if dnsBlastConfig.ParallelQueries c = 0 then 5
           else dnsBlastConfig.ParallelQueries c),
        Delay = word_of_int (if IntervalMs c = 0 then 10 else IntervalMs c) * 1000000,
        Config.ClientID = GlobalConfig.ClientID globalConfig\<rparr>
     in \<lparr>data = None, err = map_option EngineError (Start config),
         started = Some config\<rparr>)"
  using assms by (simp add: dnsBlastJob_unfold)

lemma dnsBlastJob_started_iff:
  "started (dnsBlastJob Decode Start globalConfig args) \<noteq> None \<longleftrightarrow>
     (\<exists>c. Decode args = Inr c \<and> dnsBlastConfig.RootDomain c \<noteq> []
          \<and> dnsBlastConfig.SeedDomains c \<noteq> [])"
  by (auto simp add: dnsBlastJob_unfold split: sum.splits)

subsection \<open>Decoding\<close>

text \<open>
  Claim C5. When decoding the argument map fails, the adapter returns at once: the data
  is nil, the error is the wrapping error whose cause (what \<^verbatim>\<open>errors.Unwrap\<close> gives)
  is the decoder's error, and the engine is not called. The outcome does not depend on
  the engine or on the global configuration, so nothing after the decode contributes.
\<close>

theorem dnsBlastJob_decode_failure:
  assumes "Decode args = Inl cause"
  shows "\<exists>e. dnsBlastJob Decode Start globalConfig args =
               \<lparr>data = None, err = Some e, started = None\<rparr>
             \<and> e = FailedToParse cause \<and> Unwrap UnwrapEngine e = Some (Inl cause)"
  using assms by (simp add: dnsBlastJob_decode_failed)

theorem dnsBlastJob_decode_failure_witness:
  "(\<lambda>args :: (string \<times> string) list. Inl ''interval_ms: expected type int'' :: string + dnsBlastConfig)
       [(''interval_ms'', ''soon'')] = Inl ''interval_ms: expected type int''
   \<and> (\<exists>e. dnsBlastJob
             (\<lambda>args :: (string \<times> string) list.
                Inl ''interval_ms: expected type int'' :: string + dnsBlastConfig)
             (\<lambda>config. None :: go_error option)
             \<lparr>GlobalConfig.ClientID = ''client''\<rparr>
             [(''interval_ms'', ''soon'')] =
            \<lparr>data = None, err = Some e, started = None\<rparr>
          \<and> e = FailedToParse ''interval_ms: expected type int''
          \<and> Unwrap errors_Unwrap e = Some (Inl ''interval_ms: expected type int''))"
  using dnsBlastJob_decode_failure
    [where Decode = "\<lambda>args :: (string \<times> string) list.
           Inl ''interval_ms: expected type int'' :: string + dnsBlastConfig"
       and args = "[(''interval_ms'', ''soon'')]"
       and cause = "''interval_ms: expected type int''"
       and Start = "\<lambda>config. None :: go_error option"
       and globalConfig = "\<lparr>GlobalConfig.ClientID = ''client''\<rparr>"
       and UnwrapEngine = errors_Unwrap]
  by simp

subsection \<open>Validation\<close>

text \<open>
  Claim C2. A decoded configuration whose root domain is empty, or whose list of seed
  domains is empty, makes the adapter return a non-nil error (the one for the root domain
  when that is empty, the one for the seeds otherwise) with nil data, and the engine is
  never called.
\<close>

theorem dnsBlastJob_missing_root_or_seeds:
  assumes "Decode args = Inr c"
    and "dnsBlastConfig.RootDomain c = [] \<or> dnsBlastConfig.SeedDomains c = []"
  shows "dnsBlastJob Decode Start globalConfig args =
           \<lparr>data = None,
            err = Some (if dnsBlastConfig.RootDomain c = [] then NoRootDomain
                        else NoSeedDomains),
            started = None\<rparr>"
  using assms by (auto simp add: dnsBlastJob_def)

theorem dnsBlastJob_missing_root_or_seeds_witness:
  "dnsBlastJob (Inr :: dnsBlastConfig \<Rightarrow> string + dnsBlastConfig)
       (\<lambda>config. None :: string option) \<lparr>GlobalConfig.ClientID = ''client''\<rparr>
       \<lparr>IntervalMs = 0, dnsBlastConfig.RootDomain = '''',
        dnsBlastConfig.Protocol = ''udp'', dnsBlastConfig.SeedDomains = [''a'', ''b''],
        dnsBlastConfig.ParallelQueries = 3\<rparr>
     = \<lparr>data = None, err = Some NoRootDomain, started = None\<rparr>
   \<and> dnsBlastJob (Inr :: dnsBlastConfig \<Rightarrow> string + dnsBlastConfig)
       (\<lambda>config. None :: string option) \<lparr>GlobalConfig.ClientID = ''client''\<rparr>
       \<lparr>IntervalMs = 0, dnsBlastConfig.RootDomain = ''example.test'',
        dnsBlastConfig.Protocol = ''udp'', dnsBlastConfig.SeedDomains = [],
        dnsBlastConfig.ParallelQueries = 3\<rparr>
     = \<lparr>data = None, err = Some NoSeedDomains, started = None\<rparr>"
  using
    dnsBlastJob_missing_root_or_seeds
      [of "Inr :: dnsBlastConfig \<Rightarrow> string + dnsBlastConfig"
          "\<lparr>IntervalMs = 0, dnsBlastConfig.RootDomain = '''',
            dnsBlastConfig.Protocol = ''udp'', dnsBlastConfig.SeedDomains = [''a'', ''b''],
            dnsBlastConfig.ParallelQueries = 3\<rparr>" _
          "\<lambda>config. None :: string option" "\<lparr>GlobalConfig.ClientID = ''client''\<rparr>"]
    dnsBlastJob_missing_root_or_seeds
      [of "Inr :: dnsBlastConfig \<Rightarrow> string + dnsBlastConfig"
          "\<lparr>IntervalMs = 0, dnsBlastConfig.RootDomain = ''example.test'',
            dnsBlastConfig.Protocol = ''udp'', dnsBlastConfig.SeedDomains = [],
            dnsBlastConfig.ParallelQueries = 3\<rparr>" _
          "\<lambda>config. None :: string option" "\<lparr>GlobalConfig.ClientID = ''client''\<rparr>"]
  by simp

text \<open>
  Claim C1, at the protocol "bogus". The configuration has a root domain and two seeds,
  and its protocol is none of "udp", "tcp" and "tcp-tls". The adapter does not return the
  error for an unrecognized protocol: it calls the engine with the protocol "bogus", and
  returns what the engine returns (here nil).
\<close>

theorem dnsBlastJob_bogus_protocol_reaches_engine:
  "dnsBlastJob (Inr :: dnsBlastConfig \<Rightarrow> string + dnsBlastConfig)
       (\<lambda>config. None :: string option) \<lparr>GlobalConfig.ClientID = ''client''\<rparr>
       \<lparr>IntervalMs = 0, dnsBlastConfig.RootDomain = ''example.test'',
        dnsBlastConfig.Protocol = ''bogus'', dnsBlastConfig.SeedDomains = [''a'', ''b''],
        dnsBlastConfig.ParallelQueries = 0\<rparr>
     = \<lparr>data = None, err = None,
        started = Some \<lparr>Config.RootDomain = ''example.test'', Config.Protocol = ''bogus'',
                        Config.SeedDomains = [''a'', ''b''], Config.ParallelQueries = 5,
                        Delay = 10000000, Config.ClientID = ''client''\<rparr>\<rparr>"
  by (simp add: dnsBlastJob_unfold)

theorem dnsBlastJob_bogus_protocol_not_rejected:
  "started (dnsBlastJob (Inr :: dnsBlastConfig \<Rightarrow> string + dnsBlastConfig)
       (\<lambda>config. None :: string option) \<lparr>GlobalConfig.ClientID = ''client''\<rparr>
       \<lparr>IntervalMs = 0, dnsBlastConfig.RootDomain = ''example.test'',
        dnsBlastConfig.Protocol = ''bogus'', dnsBlastConfig.SeedDomains = [''a'', ''b''],
        dnsBlastConfig.ParallelQueries = 0\<rparr>) \<noteq> None
   \<and> err (dnsBlastJob (Inr :: dnsBlastConfig \<Rightarrow> string + dnsBlastConfig)
       (\<lambda>config. None :: string option) \<lparr>GlobalConfig.ClientID = ''client''\<rparr>
       \<lparr>IntervalMs = 0, dnsBlastConfig.RootDomain = ''example.test'',
        dnsBlastConfig.Protocol = ''bogus'', dnsBlastConfig.SeedDomains = [''a'', ''b''],
        dnsBlastConfig.ParallelQueries = 0\<rparr>) = None
   \<and> ''bogus'' \<noteq> ''udp'' \<and> ''bogus'' \<noteq> ''tcp'' \<and> ''bogus'' \<noteq> ''tcp-tls''"
  using dnsBlastJob_bogus_protocol_reaches_engine by simp

subsection \<open>Defaults\<close>

text \<open>
  Claim C3, for the value the code defaults. For a decoded configuration with a root
  domain and a seed list whose \<^verbatim>\<open>parallel_queries\<close> is zero, the parallelism the
  engine is called with is the default, 5.
\<close>

theorem dnsBlastJob_parallelism:
  assumes "Decode args = Inr c"
    and "dnsBlastConfig.RootDomain c \<noteq> []"
    and "dnsBlastConfig.SeedDomains c \<noteq> []"
    and "dnsBlastConfig.ParallelQueries c = 0"
  shows "map_option Config.ParallelQueries
           (started (dnsBlastJob Decode Start globalConfig args)) = Some 5"
  using assms by (simp add: dnsBlastJob_calls_engine Let_def)

theorem dnsBlastJob_parallelism_witness:
  "map_option Config.ParallelQueries
     (started (dnsBlastJob (Inr :: dnsBlastConfig \<Rightarrow> string + dnsBlastConfig)
        (\<lambda>config. None :: string option) \<lparr>GlobalConfig.ClientID = ''client''\<rparr>
        \<lparr>IntervalMs = 20, dnsBlastConfig.RootDomain = ''example.test'',
         dnsBlastConfig.Protocol = ''tcp'', dnsBlastConfig.SeedDomains = [''a''],
         dnsBlastConfig.ParallelQueries = 0\<rparr>)) = Some 5"
  using
    dnsBlastJob_parallelism
      [of "Inr :: dnsBlastConfig \<Rightarrow> string + dnsBlastConfig"
          "\<lparr>IntervalMs = 20, dnsBlastConfig.RootDomain = ''example.test'',
            dnsBlastConfig.Protocol = ''tcp'', dnsBlastConfig.SeedDomains = [''a''],
            dnsBlastConfig.ParallelQueries = 0\<rparr>" _
          "\<lambda>config. None :: string option" "\<lparr>GlobalConfig.ClientID = ''client''\<rparr>"]
  by simp

text \<open>
  The claim as the spec words it, with negative values defaulted too, fails at
  \<^verbatim>\<open>parallel_queries\<close> = -1: line 91 tests for zero only, so the engine is called
  with parallelism -1, not 5.
\<close>

theorem dnsBlastJob_negative_parallelism_kept:
  "dnsBlastConfig.ParallelQueries
      \<lparr>IntervalMs = 20, dnsBlastConfig.RootDomain = ''example.test'',
       dnsBlastConfig.Protocol = ''tcp'', dnsBlastConfig.SeedDomains = [''a''],
       dnsBlastConfig.ParallelQueries = - 1\<rparr> \<le> 0
   \<and> map_option Config.ParallelQueries
     (started (dnsBlastJob (Inr :: dnsBlastConfig \<Rightarrow> string + dnsBlastConfig)
        (\<lambda>config. None :: string option) \<lparr>GlobalConfig.ClientID = ''client''\<rparr>
        \<lparr>IntervalMs = 20, dnsBlastConfig.RootDomain = ''example.test'',
         dnsBlastConfig.Protocol = ''tcp'', dnsBlastConfig.SeedDomains = [''a''],
         dnsBlastConfig.ParallelQueries = - 1\<rparr>)) = Some (- 1)
   \<and> (- 1 :: int) \<noteq> 5"
  by (simp add: dnsBlastJob_unfold)

text \<open>
  Claim C4. For a decoded configuration with a root domain and a seed list whose
  protocol, \<^verbatim>\<open>parallel_queries\<close> and \<^verbatim>\<open>interval_ms\<close> are all unset (the empty
  string, zero and zero), the engine is called with protocol "udp", parallelism 5 and a
  delay of 10 milliseconds, that is 10000000 nanoseconds; the delay is not zero.
\<close>

theorem dnsBlastJob_defaults:
  assumes "Decode args = Inr c"
    and "dnsBlastConfig.RootDomain c \<noteq> []"
    and "dnsBlastConfig.SeedDomains c \<noteq> []"
    and "dnsBlastConfig.Protocol c = []"
    and "dnsBlastConfig.ParallelQueries c = 0"
    and "IntervalMs c = 0"
  shows "\<exists>config. started (dnsBlastJob Decode Start globalConfig args) = Some config
           \<and> Config.Protocol config = ''udp''
           \<and> Config.ParallelQueries config = 5
           \<and> Delay config = 10 * Millisecond
           \<and> sint (Delay config) = 10000000
           \<and> Delay config \<noteq> 0"
  using assms by (simp add: dnsBlastJob_calls_engine Let_def Millisecond_def)

theorem dnsBlastJob_defaults_witness:
  "\<exists>config. started (dnsBlastJob (Inr :: dnsBlastConfig \<Rightarrow> string + dnsBlastConfig)
        (\<lambda>config. None :: string option) \<lparr>GlobalConfig.ClientID = ''client''\<rparr>
        \<lparr>IntervalMs = 0, dnsBlastConfig.RootDomain = ''example.test'',
         dnsBlastConfig.Protocol = '''', dnsBlastConfig.SeedDomains = [''a'', ''b''],
         dnsBlastConfig.ParallelQueries = 0\<rparr>) = Some config
     \<and> Config.Protocol config = ''udp''
     \<and> Config.ParallelQueries config = 5
     \<and> Delay config = 10 * Millisecond
     \<and> sint (Delay config) = 10000000
     \<and> Delay config \<noteq> 0"
  using
    dnsBlastJob_defaults
      [of "Inr :: dnsBlastConfig \<Rightarrow> string + dnsBlastConfig"
          "\<lparr>IntervalMs = 0, dnsBlastConfig.RootDomain = ''example.test'',
            dnsBlastConfig.Protocol = '''', dnsBlastConfig.SeedDomains = [''a'', ''b''],
            dnsBlastConfig.ParallelQueries = 0\<rparr>" _
          "\<lambda>config. None :: string option" "\<lparr>GlobalConfig.ClientID = ''client''\<rparr>"]
  by simp

subsection \<open>What every run returns and passes on\<close>

text \<open>
  Claim C8. Whenever the engine is called, the client identifier of the configuration it
  is called with is the client identifier of the global configuration.
\<close>

theorem dnsBlastJob_client_id:
  assumes "started (dnsBlastJob Decode Start globalConfig args) = Some config"
  shows "Config.ClientID config = GlobalConfig.ClientID globalConfig"
  using assms by (auto simp add: dnsBlastJob_def Let_def split: sum.splits if_splits)

theorem dnsBlastJob_client_id_witness:
  "started (dnsBlastJob (Inr :: dnsBlastConfig \<Rightarrow> string + dnsBlastConfig)
        (\<lambda>config. None :: string option) \<lparr>GlobalConfig.ClientID = ''client-42''\<rparr>
        \<lparr>IntervalMs = 20, dnsBlastConfig.RootDomain = ''example.test'',
         dnsBlastConfig.Protocol = ''tcp-tls'', dnsBlastConfig.SeedDomains = [''a''],
         dnsBlastConfig.ParallelQueries = 2\<rparr>)
     = Some \<lparr>Config.RootDomain = ''example.test'', Config.Protocol = ''tcp-tls'',
             Config.SeedDomains = [''a''], Config.ParallelQueries = 2,
             Delay = 20000000, Config.ClientID = ''client-42''\<rparr>
   \<and> Config.ClientID
        \<lparr>Config.RootDomain = ''example.test'', Config.Protocol = ''tcp-tls'',
         Config.SeedDomains = [''a''], Config.ParallelQueries = 2,
         Delay = 20000000, Config.ClientID = ''client-42''\<rparr>
     = GlobalConfig.ClientID \<lparr>GlobalConfig.ClientID = ''client-42''\<rparr>"
proof -
  have reached:
    "started (dnsBlastJob (Inr :: dnsBlastConfig \<Rightarrow> string + dnsBlastConfig)
        (\<lambda>config. None :: string option) \<lparr>GlobalConfig.ClientID = ''client-42''\<rparr>
        \<lparr>IntervalMs = 20, dnsBlastConfig.RootDomain = ''example.test'',
         dnsBlastConfig.Protocol = ''tcp-tls'', dnsBlastConfig.SeedDomains = [''a''],
         dnsBlastConfig.ParallelQueries = 2\<rparr>)
     = Some \<lparr>Config.RootDomain = ''example.test'', Config.Protocol = ''tcp-tls'',
             Config.SeedDomains = [''a''], Config.ParallelQueries = 2,
             Delay = 20000000, Config.ClientID = ''client-42''\<rparr>"
    by (simp add: dnsBlastJob_unfold)
  from dnsBlastJob_client_id [OF reached] reached show ?thesis
    by blast
qed

text \<open>
  Claim C9. The data result of the adapter is nil on every returning path: after a
  failed decode, after each validation error, and after the engine has returned.
\<close>

theorem dnsBlastJob_data_nil:
  "data (dnsBlastJob Decode Start globalConfig args) = None"
  by (simp add: dnsBlastJob_def Let_def split: sum.splits)

theorem dnsBlastJob_data_nil_witness:
  "data (dnsBlastJob (Inr :: dnsBlastConfig \<Rightarrow> string + dnsBlastConfig)
        (\<lambda>config. Some ''no route to host'') \<lparr>GlobalConfig.ClientID = ''client''\<rparr>
        \<lparr>IntervalMs = 20, dnsBlastConfig.RootDomain = ''example.test'',
         dnsBlastConfig.Protocol = ''udp'', dnsBlastConfig.SeedDomains = [''a''],
         dnsBlastConfig.ParallelQueries = 2\<rparr>) = None
   \<and> data (dnsBlastJob (Inr :: dnsBlastConfig \<Rightarrow> string + dnsBlastConfig)
        (\<lambda>config. Some ''no route to host'') \<lparr>GlobalConfig.ClientID = ''client''\<rparr>
        \<lparr>IntervalMs = 20, dnsBlastConfig.RootDomain = '''',
         dnsBlastConfig.Protocol = ''udp'', dnsBlastConfig.SeedDomains = [''a''],
         dnsBlastConfig.ParallelQueries = 2\<rparr>) = None"
  using
    dnsBlastJob_data_nil
      [of "Inr :: dnsBlastConfig \<Rightarrow> string + dnsBlastConfig"
          "\<lambda>config. Some ''no route to host''" "\<lparr>GlobalConfig.ClientID = ''client''\<rparr>"
          "\<lparr>IntervalMs = 20, dnsBlastConfig.RootDomain = ''example.test'',
            dnsBlastConfig.Protocol = ''udp'', dnsBlastConfig.SeedDomains = [''a''],
            dnsBlastConfig.ParallelQueries = 2\<rparr>"]
    dnsBlastJob_data_nil
      [of "Inr :: dnsBlastConfig \<Rightarrow> string + dnsBlastConfig"
          "\<lambda>config. Some ''no route to host''" "\<lparr>GlobalConfig.ClientID = ''client''\<rparr>"
          "\<lparr>IntervalMs = 20, dnsBlastConfig.RootDomain = '''',
            dnsBlastConfig.Protocol = ''udp'', dnsBlastConfig.SeedDomains = [''a''],
            dnsBlastConfig.ParallelQueries = 2\<rparr>"]
  by blast

section \<open>Properties of the raw connection provider\<close>

lemma errors_Unwrap_not_self: "errors_Unwrap e \<noteq> Some e"
  by (induction e) auto




text \<open>
  Claim C7. When the underlying open succeeds, for any network name and any address (the
  empty one included), \<^verbatim>\<open>OpenRawConnection\<close> returns a non-nil handle, which is
  \<^verbatim>\<open>ipv6.NewPacketConn\<close> applied to the opened socket, and a nil error. The
  definition does not look at the network name, so one path serves every family.
\<close>

theorem OpenRawConnection_success:
  assumes "ListenPacket (Name c) (Address c) = Inr packetConn"
  shows "OpenRawConnection ListenPacket NewPacketConn c =
           (Some (NewPacketConn packetConn), None)"
  using assms by (simp add: OpenRawConnection_def)

theorem OpenRawConnection_success_witness:
  "OpenRawConnection
       (\<lambda>name address. Inr (name, address) :: string + string \<times> string)
       (\<lambda>packetConn. (''ipv6'', packetConn))
       \<lparr>Name = ''ip4:udp'', Address = ''''\<rparr>
     = (Some (''ipv6'', (''ip4:udp'', '''')), None)
   \<and> OpenRawConnection
       (\<lambda>name address. Inr (name, address) :: string + string \<times> string)
       (\<lambda>packetConn. (''ipv6'', packetConn))
       \<lparr>Name = ''ip6:udp'', Address = ''::1''\<rparr>
     = (Some (''ipv6'', (''ip6:udp'', ''::1'')), None)"
  using
    OpenRawConnection_success
      [where ListenPacket = "\<lambda>name address. Inr (name, address) :: string + string \<times> string"
        and NewPacketConn = "\<lambda>packetConn. (''ipv6'', packetConn)"
        and c = "\<lparr>Name = ''ip4:udp'', Address = ''''\<rparr>"
        and packetConn = "(''ip4:udp'', '''')"]
    OpenRawConnection_success
      [where ListenPacket = "\<lambda>name address. Inr (name, address) :: string + string \<times> string"
        and NewPacketConn = "\<lambda>packetConn. (''ipv6'', packetConn)"
        and c = "\<lparr>Name = ''ip6:udp'', Address = ''::1''\<rparr>"
        and packetConn = "(''ip6:udp'', ''::1'')"]
  by simp

section \<open>Properties of Restart\<close>

lemma build_constraint_iff:
  "build_constraint GOOS tags \<longleftrightarrow>
     GOOS \<notin> {''linux'', ''android'', ''darwin'', ''ios'', ''windows''}
     \<and> ''linux'' \<notin> set tags \<and> ''darwin'' \<notin> set tags \<and> ''windows'' \<notin> set tags"
  by (auto simp add: build_constraint_def satisfied_def)

text \<open>
  Claim C10, for the builds the file is part of. In every build whose constraint
  \<^verbatim>\<open>!linux && !darwin && !windows\<close> holds, \<^verbatim>\<open>Restart\<close> returns, for every list
  of extra arguments, a non-nil error whose message contains the name of the running
  operating system, and it leaves the state of the process as it was.
\<close>

theorem Restart_not_available:
  assumes "build_constraint GOOS tags"
  shows "Restart GOOS tags extraArgs s =
           Some (Some (''restart on the '' @ GOOS @ '' system is not available''), s)"
  using assms by (simp add: Restart_def)

theorem Restart_not_available_witness:
  "build_constraint ''freebsd'' [''netgo'']
   \<and> Restart ''freebsd'' [''netgo''] [''--log-level'', ''debug''] (0 :: nat) =
       Some (Some ''restart on the freebsd system is not available'', 0)"
proof -
  have other: "build_constraint ''freebsd'' [''netgo'']"
    by (simp add: build_constraint_def satisfied_def)
  from Restart_not_available [OF other, of "[''--log-level'', ''debug'']" "0 :: nat"] other
  show ?thesis by simp
qed

text \<open>
  The claim as the spec words it, for every platform other than linux, darwin and
  windows, fails on android: the platform is none of the three, yet a build for it
  satisfies the tag \<^verbatim>\<open>linux\<close>, the file is left out of the build, and this
  \<^verbatim>\<open>Restart\<close> returns nothing there.
\<close>

theorem Restart_android_not_built:
  "''android'' \<noteq> ''linux'' \<and> ''android'' \<noteq> ''darwin'' \<and> ''android'' \<noteq> ''windows''
   \<and> Restart ''android'' [] [''--log-level'', ''debug''] (0 :: nat) = None"
  by (simp add: Restart_def build_constraint_def satisfied_def)

end
